theory Spec2Isabelle
  imports Complex_Main
begin

section \<open>Data model of \<open>bin/colourise-go-test-output.py\<close>\<close>

subsection \<open>Colour markers (class \<open>Colors\<close>)\<close>

definition ESC :: char where
  "ESC = CHR 0x1B"

definition LIGHT_GREY :: string where
  "LIGHT_GREY = ESC # ''[90m''"

definition RED :: string where
  "RED = ESC # ''[91m''"

definition YELLOW :: string where
  "YELLOW = ESC # ''[93m''"

definition RESET :: string where
  "RESET = ESC # ''[0m''"

subsection \<open>Decoded input\<close>

text \<open>
  The dictionary \<open>data\<close> that \<open>json.loads\<close> returns for one event of
  \<open>go test -json\<close>. A field is \<open>None\<close> when the key is absent. The four fields the
  loop reads with \<open>data.get\<close> are strings, as the test runner emits them; of \<open>Elapsed\<close>
  only the presence is ever inspected. Dictionaries that carry a value of another type
  under \<open>Package\<close>, \<open>Test\<close>, \<open>Action\<close> or \<open>Output\<close> are outside this model.
\<close>

record event =
  Package :: "string option"
  Test :: "string option"
  Action :: "string option"
  Output :: "string option"
  Elapsed :: "real option"

text \<open>What \<open>json.loads\<close> can return: a dictionary, or any other JSON value.\<close>

datatype pyobj =
    PyDict event
  | PyNone
  | PyBool bool
  | PyNum real
  | PyStr string
  | PyList "pyobj list"

text \<open>
  One line of standard input, as \<open>line.strip()\<close> and \<open>json.loads\<close> see it: empty
  after stripping, rejected with \<open>JSONDecodeError\<close>, or decoded to a value.
\<close>

datatype line = Blank | Undecodable | Loaded pyobj

subsection \<open>Program state\<close>

datatype stream = Stdout | Stderr

text \<open>
  The three local variables of \<open>main\<close>, and the chunks written so far. Every
  \<open>write\<close> of the source is followed by a \<open>flush\<close> of the same stream, so a chunk
  is recorded at the moment it is written; \<open>written\<close> keeps the chunks of both streams in
  the order of the calls.
\<close>

record state =
  test_buffers :: "string \<rightharpoonup> string list"
  failed_tests :: "string set"
  any_test_failed :: bool
  written :: "(stream \<times> string) list"

definition init :: state where
  "init = \<lparr>test_buffers = Map.empty, failed_tests = {}, any_test_failed = False, written = []\<rparr>"

datatype pyerror = AttributeError

datatype outcome = Returned int | Raised pyerror

section \<open>Operations\<close>

text \<open>\<open>data.get(key, '')\<close> on a field of the dictionary.\<close>

definition get :: "string option \<Rightarrow> string" where
  "get field = (case field of None \<Rightarrow> [] | Some v \<Rightarrow> v)"

text \<open>\<open>test_key = f"{package}::{test}" if test else package\<close>\<close>

definition test_key :: "event \<Rightarrow> string" where
  "test_key data =
     (let package = get (Package data); test = get (Test data)
      in if test \<noteq> [] then package @ ''::'' @ test else package)"

text \<open>The operator \<open>needle in haystack\<close> on two strings: a contiguous occurrence.\<close>

fun str_in :: "string \<Rightarrow> string \<Rightarrow> bool" where
  "str_in needle [] = (needle = [])"
| "str_in needle (c # cs) = (take (length needle) (c # cs) = needle \<or> str_in needle cs)"

text \<open>\<open>sys.stdout.write(text); sys.stdout.flush()\<close>, and the same for \<open>sys.stderr\<close>.\<close>

definition write_flush :: "stream \<Rightarrow> string \<Rightarrow> state \<Rightarrow> state" where
  "write_flush f chunk s = s\<lparr>written := written s @ [(f, chunk)]\<rparr>"

text \<open>
  \<open>test_buffers\<close> is a \<open>defaultdict(list)\<close>: reading a missing key stores an empty
  list under it and returns that list.
\<close>

definition getitem :: "string \<Rightarrow> state \<Rightarrow> string list \<times> state" where
  "getitem k s =
     (case test_buffers s k of
        None \<Rightarrow> ([], s\<lparr>test_buffers := (test_buffers s)(k \<mapsto> [])\<rparr>)
      | Some b \<Rightarrow> (b, s))"

text \<open>\<open>test_buffers[test_key].append(output)\<close>\<close>

definition buffer_append :: "string \<Rightarrow> string \<Rightarrow> state \<Rightarrow> state" where
  "buffer_append k output s =
     (let (b, s') = getitem k s
      in s'\<lparr>test_buffers := (test_buffers s')(k \<mapsto> b @ [output])\<rparr>)"

text \<open>
  The branch \<open>if action == 'fail'\<close>: mark the key, raise the flag, and replay the
  buffer of the key in yellow on standard error.
\<close>

definition on_fail :: "string \<Rightarrow> state \<Rightarrow> state" where
  "on_fail k s =
     (let s1 = s\<lparr>failed_tests := insert k (failed_tests s)\<rparr>;
          s2 = s1\<lparr>any_test_failed := True\<rparr>;
          (b, s3) = getitem k s2
      in fold (\<lambda>buffered_output. write_flush Stderr (YELLOW @ buffered_output @ RESET)) b s3)"

text \<open>The branch \<open>if output\<close>: the fragment of the event itself.\<close>

definition emit_output :: "string \<Rightarrow> string \<Rightarrow> state \<Rightarrow> state" where
  "emit_output k output s =
     (if str_in ''FAIL'' output then write_flush Stderr (RED @ output @ RESET) s
      else if k \<in> failed_tests s then write_flush Stderr (YELLOW @ output @ RESET) s
      else write_flush Stdout (LIGHT_GREY @ output @ RESET) s)"

text \<open>The branch \<open>if 'Elapsed' in data\<close>.\<close>

definition cleanup :: "string \<Rightarrow> state \<Rightarrow> state" where
  "cleanup k s =
     (let s1 = (if k \<in> dom (test_buffers s)
                then s\<lparr>test_buffers := (test_buffers s)(k := None)\<rparr> else s)
      in s1\<lparr>failed_tests := failed_tests s1 - {k}\<rparr>)"

text \<open>The body of the loop, for a line that decoded to the dictionary \<open>data\<close>.\<close>

definition process_event :: "state \<Rightarrow> event \<Rightarrow> state" where
  "process_event s data =
     (let test = get (Test data);
          action = get (Action data);
          output = get (Output data);
          k = test_key data;
          s1 = (if test \<noteq> [] \<and> output \<noteq> [] then buffer_append k output s else s);
          s2 = (if action = ''fail'' then on_fail k s1 else s1);
          s3 = (if output \<noteq> [] then emit_output k output s2 else s2)
      in if Elapsed data \<noteq> None then cleanup k s3 else s3)"

text \<open>
  The loop \<open>for line in sys.stdin\<close>. A blank line and a line that \<open>json.loads\<close>
  rejects are skipped by \<open>continue\<close>. A decoded value that is not a dictionary has no
  method \<open>get\<close>: the first \<open>data.get\<close> raises \<open>AttributeError\<close>, which nothing
  catches, and the loop ends there.
\<close>

fun main_loop :: "state \<Rightarrow> line list \<Rightarrow> pyerror option \<times> state" where
  "main_loop s [] = (None, s)"
| "main_loop s (Blank # rest) = main_loop s rest"
| "main_loop s (Undecodable # rest) = main_loop s rest"
| "main_loop s (Loaded (PyDict data) # rest) = main_loop (process_event s data) rest"
| "main_loop s (Loaded _ # rest) = (Some AttributeError, s)"

text \<open>
  The end of \<open>main\<close>: \<open>return 1 if any_test_failed else 0\<close> when the loop ran to
  the end of the input, the exception when it did not. The second component is what was
  written up to that moment.
\<close>

definition finish :: "pyerror option \<times> state \<Rightarrow> outcome \<times> (stream \<times> string) list" where
  "finish r =
     (case r of
        (None, s) \<Rightarrow> (Returned (if any_test_failed s then 1 else 0), written s)
      | (Some e, s) \<Rightarrow> (Raised e, written s))"

definition main :: "line list \<Rightarrow> outcome \<times> (stream \<times> string) list" where
  "main stdin = finish (main_loop init stdin)"

text \<open>
  \<open>sys.exit(main())\<close>: the status of the process is the value \<open>main\<close> returned; an
  exception that reaches the top level ends the interpreter with status 1.
\<close>

definition exit_status :: "outcome \<Rightarrow> int" where
  "exit_status r = (case r of Returned n \<Rightarrow> n | Raised e \<Rightarrow> 1)"

section \<open>Vocabulary of the specification\<close>

text \<open>The chunks that reached one stream, in order.\<close>

definition on_stream :: "stream \<Rightarrow> (stream \<times> string) list \<Rightarrow> string list" where
  "on_stream f w = map snd (filter (\<lambda>c. fst c = f) w)"

text \<open>The fragments buffered under a key: none when the key has no entry.\<close>

definition buffered :: "state \<Rightarrow> string \<Rightarrow> string list" where
  "buffered s k = (case test_buffers s k of None \<Rightarrow> [] | Some b \<Rightarrow> b)"

text \<open>A fragment in the neutral, the hard-failure and the failed marker, on its stream.\<close>

definition neutral_chunk :: "string \<Rightarrow> stream \<times> string" where
  "neutral_chunk t = (Stdout, LIGHT_GREY @ t @ RESET)"

definition hard_failure_chunk :: "string \<Rightarrow> stream \<times> string" where
  "hard_failure_chunk t = (Stderr, RED @ t @ RESET)"

definition failed_chunk :: "string \<Rightarrow> stream \<times> string" where
  "failed_chunk t = (Stderr, YELLOW @ t @ RESET)"

subsection \<open>Sample input\<close>

text \<open>The three events of scenario B of the specification, and an event of another test.\<close>

definition B_run :: event where
  "B_run = \<lparr>Package = Some ''p'', Test = Some ''t'', Action = Some ''run'',
             Output = None, Elapsed = None\<rparr>"

definition B_output :: event where
  "B_output = \<lparr>Package = Some ''p'', Test = Some ''t'', Action = Some ''output'',
                Output = Some (''boom'' @ [CHR 0x0A]), Elapsed = None\<rparr>"

definition B_fail :: event where
  "B_fail = \<lparr>Package = Some ''p'', Test = Some ''t'', Action = Some ''fail'',
              Output = None, Elapsed = Some 0.02\<rparr>"

definition scenario_B :: "line list" where
  "scenario_B = [Loaded (PyDict B_run), Loaded (PyDict B_output), Loaded (PyDict B_fail)]"

definition other_output :: event where
  "other_output = \<lparr>Package = Some ''q'', Test = Some ''u'', Action = Some ''output'',
                    Output = Some ''x'', Elapsed = None\<rparr>"

text \<open>A \<open>fail\<close> event that carries its own fragment and no \<open>Elapsed\<close>.\<close>

definition fail_with_output :: event where
  "fail_with_output = \<lparr>Package = Some ''p'', Test = Some ''t'', Action = Some ''fail'',
                        Output = Some ''--- FAIL: t'', Elapsed = None\<rparr>"

text \<open>A \<open>fail\<close> event with neither \<open>Output\<close> nor \<open>Elapsed\<close>.\<close>

definition bare_fail :: event where
  "bare_fail = \<lparr>Package = Some ''p'', Test = Some ''t'', Action = Some ''fail'',
                 Output = None, Elapsed = None\<rparr>"

text \<open>A state in which test \<open>p::t\<close> has one buffered fragment and has failed.\<close>

definition failed_state :: state where
  "failed_state = \<lparr>test_buffers = [''p::t'' \<mapsto> [''--- FAIL: t'']], failed_tests = {''p::t''},
                    any_test_failed = True, written = []\<rparr>"

section \<open>Basic facts\<close>

lemma str_in_iff: "str_in needle hay \<longleftrightarrow> (\<exists>ps ss. hay = ps @ needle @ ss)"
proof (induction hay)
  case Nil
  then show ?case by auto
next
  case (Cons c cs)
  show ?case
  proof
    assume "str_in needle (c # cs)"
    then consider "take (length needle) (c # cs) = needle" | "str_in needle cs" by auto
    then show "\<exists>ps ss. c # cs = ps @ needle @ ss"
    proof cases
      case 1
      then have "c # cs = [] @ needle @ drop (length needle) (c # cs)"
        by (metis append_Nil append_take_drop_id)
      then show ?thesis by blast
    next
      case 2
      with Cons obtain ps ss where "cs = ps @ needle @ ss" by blast
      then have "c # cs = (c # ps) @ needle @ ss" by simp
      then show ?thesis by blast
    qed
  next
    assume "\<exists>ps ss. c # cs = ps @ needle @ ss"
    then obtain ps ss where eq: "c # cs = ps @ needle @ ss" by blast
    show "str_in needle (c # cs)"
    proof (cases ps)
      case Nil
      with eq have "take (length needle) (c # cs) = needle" by simp
      then show ?thesis by simp
    next
      case (Cons p ps')
      with eq have "cs = ps' @ needle @ ss" by simp
      with Cons.IH show ?thesis by auto
    qed
  qed
qed

text \<open>The replay loop only writes.\<close>

lemma written_fold_write_flush:
  "written (fold (\<lambda>b. write_flush f (g b)) bs s) = written s @ map (\<lambda>b. (f, g b)) bs"
  by (induction bs arbitrary: s) (simp_all add: write_flush_def)

lemma more_fold_write_flush:
  "test_buffers (fold (\<lambda>b. write_flush f (g b)) bs s) = test_buffers s"
  "failed_tests (fold (\<lambda>b. write_flush f (g b)) bs s) = failed_tests s"
  "any_test_failed (fold (\<lambda>b. write_flush f (g b)) bs s) = any_test_failed s"
  by (induction bs arbitrary: s) (simp_all add: write_flush_def)

lemmas body_defs = process_event_def Let_def on_fail_def getitem_def buffer_append_def
  emit_output_def cleanup_def write_flush_def buffered_def written_fold_write_flush more_fold_write_flush
  neutral_chunk_def hard_failure_chunk_def failed_chunk_def

lemma written_process_event:
  "written (process_event s data) =
     written s
     @ (if get (Action data) = ''fail''
        then map failed_chunk
               (buffered s (test_key data)
                @ (if get (Test data) \<noteq> [] \<and> get (Output data) \<noteq> [] then [get (Output data)] else []))
        else [])
     @ (if get (Output data) \<noteq> []
        then [if str_in ''FAIL'' (get (Output data)) then hard_failure_chunk (get (Output data))
              else if test_key data \<in> failed_tests s \<or> get (Action data) = ''fail''
                   then failed_chunk (get (Output data))
                   else neutral_chunk (get (Output data))]
        else [])"
  by (simp add: body_defs split: option.splits)

lemma test_buffers_other_key:
  "k \<noteq> test_key d \<Longrightarrow> test_buffers (process_event s d) k = test_buffers s k"
  by (simp add: body_defs split: option.splits)

lemma failed_tests_other_key:
  "k \<noteq> test_key d \<Longrightarrow> (k \<in> failed_tests (process_event s d)) = (k \<in> failed_tests s)"
  by (simp add: body_defs split: option.splits)

lemma any_test_failed_process_event:
  "any_test_failed (process_event s d) = (any_test_failed s \<or> get (Action d) = ''fail'')"
  by (simp add: body_defs split: option.splits)

lemma failed_tests_process_event:
  "failed_tests (process_event s d) =
     (if Elapsed d \<noteq> None then failed_tests s - {test_key d}
      else if get (Action d) = ''fail'' then insert (test_key d) (failed_tests s)
      else failed_tests s)"
  by (auto simp add: body_defs split: option.splits)

lemma test_buffers_own_key:
  "test_buffers (process_event s d) (test_key d) =
     (if Elapsed d \<noteq> None then None
      else if get (Test d) \<noteq> [] \<and> get (Output d) \<noteq> []
           then Some (buffered s (test_key d) @ [get (Output d)])
      else if get (Action d) = ''fail'' then Some (buffered s (test_key d))
      else test_buffers s (test_key d))"
  by (auto simp add: body_defs split: option.splits)

lemma flag_decides_status:
  "any_test_failed s \<Longrightarrow> exit_status (fst (finish (main_loop s rest))) = 1"
  by (induction s rest rule: main_loop.induct)
     (simp_all add: finish_def exit_status_def any_test_failed_process_event)

lemma dom_process_event:
  "k \<in> dom (test_buffers (process_event s d)) \<Longrightarrow>
     k \<in> dom (test_buffers s) \<or>
     (test_key d = k \<and>
      ((get (Test d) \<noteq> [] \<and> get (Output d) \<noteq> []) \<or> get (Action d) = ''fail''))"
  by (cases "k = test_key d")
     (auto simp add: test_buffers_own_key test_buffers_other_key split: if_splits)

lemma buffered_process_event:
  "buffered (process_event s d) k \<noteq> [] \<Longrightarrow>
     buffered s k \<noteq> [] \<or> (test_key d = k \<and> get (Test d) \<noteq> [] \<and> get (Output d) \<noteq> [])"
  by (cases "k = test_key d")
     (auto simp add: buffered_def test_buffers_own_key test_buffers_other_key split: if_splits)

lemma dom_main_loop:
  "k \<in> dom (test_buffers (snd (main_loop s stdin))) \<Longrightarrow>
     k \<in> dom (test_buffers s) \<or>
     (\<exists>d. Loaded (PyDict d) \<in> set stdin \<and> test_key d = k \<and>
        ((get (Test d) \<noteq> [] \<and> get (Output d) \<noteq> []) \<or> get (Action d) = ''fail''))"
proof (induction s stdin rule: main_loop.induct)
  case (4 s data rest)
  then have "k \<in> dom (test_buffers (process_event s data)) \<or>
     (\<exists>d. Loaded (PyDict d) \<in> set rest \<and> test_key d = k \<and>
        ((get (Test d) \<noteq> [] \<and> get (Output d) \<noteq> []) \<or> get (Action d) = ''fail''))"
    by simp
  then show ?case
  proof
    assume "k \<in> dom (test_buffers (process_event s data))"
    from dom_process_event [OF this] show ?thesis by auto
  next
    assume "\<exists>d. Loaded (PyDict d) \<in> set rest \<and> test_key d = k \<and>
        ((get (Test d) \<noteq> [] \<and> get (Output d) \<noteq> []) \<or> get (Action d) = ''fail'')"
    then show ?thesis by auto
  qed
qed auto

lemma buffered_main_loop:
  "buffered (snd (main_loop s stdin)) k \<noteq> [] \<Longrightarrow>
     buffered s k \<noteq> [] \<or>
     (\<exists>d. Loaded (PyDict d) \<in> set stdin \<and> test_key d = k \<and>
        get (Test d) \<noteq> [] \<and> get (Output d) \<noteq> [])"
proof (induction s stdin rule: main_loop.induct)
  case (4 s data rest)
  then have "buffered (process_event s data) k \<noteq> [] \<or>
     (\<exists>d. Loaded (PyDict d) \<in> set rest \<and> test_key d = k \<and>
        get (Test d) \<noteq> [] \<and> get (Output d) \<noteq> [])"
    by simp
  then show ?case
  proof
    assume "buffered (process_event s data) k \<noteq> []"
    from buffered_process_event [OF this] show ?thesis by auto
  next
    assume "\<exists>d. Loaded (PyDict d) \<in> set rest \<and> test_key d = k \<and>
        get (Test d) \<noteq> [] \<and> get (Output d) \<noteq> []"
    then show ?thesis by auto
  qed
qed auto

lemma foldl_other_keys:
  "\<forall>e \<in> set mid. test_key e \<noteq> k \<Longrightarrow>
     test_buffers (foldl process_event s mid) k = test_buffers s k \<and>
     (k \<in> failed_tests (foldl process_event s mid)) = (k \<in> failed_tests s)"
proof (induction mid arbitrary: s)
  case Nil
  then show ?case by simp
next
  case (Cons e mid)
  then have "k \<noteq> test_key e" by auto
  with Cons show ?case
    by (simp add: test_buffers_other_key failed_tests_other_key)
qed

lemma main_loop_events:
  "main_loop s (map (\<lambda>d. Loaded (PyDict d)) ds) = (None, foldl process_event s ds)"
  by (induction ds arbitrary: s) simp_all

lemma returned_status:
  "\<forall>l \<in> set stdin. l = Blank \<or> l = Undecodable \<or> (\<exists>d. l = Loaded (PyDict d)) \<Longrightarrow>
     fst (finish (main_loop s stdin)) =
       Returned (if any_test_failed s \<or>
                    (\<exists>d. Loaded (PyDict d) \<in> set stdin \<and> get (Action d) = ''fail'')
                 then 1 else 0)"
proof (induction s stdin rule: main_loop.induct)
  case (1 s)
  then show ?case by (simp add: finish_def)
next
  case (4 s data rest)
  then show ?case by (auto simp add: any_test_failed_process_event)
qed auto

text \<open>
  An event with action \<open>fail\<close> anywhere in the input fixes the exit status: the flag is
  raised when the loop reaches it, and a run that ends before with an uncaught exception
  has status 1 as well.
\<close>

lemma fail_line_gives_status_1:
  "get (Action d) = ''fail'' \<Longrightarrow>
     exit_status (fst (finish (main_loop s (pre @ Loaded (PyDict d) # post)))) = 1"
proof (induction s pre rule: main_loop.induct)
  case (1 s)
  then show ?case
    by (simp add: flag_decides_status any_test_failed_process_event)
qed (simp_all add: finish_def exit_status_def)

text \<open>Evaluation of the sample input.\<close>

lemma main_scenario_B:
  "main scenario_B =
     (Returned 1, [neutral_chunk (''boom'' @ [CHR 0x0A]), failed_chunk (''boom'' @ [CHR 0x0A])])"
  by (simp add: main_def finish_def scenario_B_def init_def body_defs
      B_run_def B_output_def B_fail_def test_key_def get_def)

text \<open>
  Blank lines and lines that \<open>json.loads\<close> rejects leave the state as it is: nothing
  is written, and the loop goes on with the next line.
\<close>

lemma skipped_lines:
  "main_loop s (Blank # rest) = main_loop s rest"
  "main_loop s (Undecodable # rest) = main_loop s rest"
  by simp_all

section \<open>Classification of the fragment of an event\<close>



section \<open>Events with action \<open>fail\<close>\<close>



text \<open>
  Claim C4. When an event with action \<open>fail\<close> has a non-empty \<open>Test\<close> and a
  non-empty \<open>Output\<close>, its fragment is written twice: as the last chunk of the replay,
  in the failed marker, and once more by the classification, in the hard-failure marker
  when the text contains \<open>FAIL\<close> and in the failed marker otherwise.
\<close>

theorem fail_fragment_emitted_twice:
  assumes "get (Action data) = ''fail''"
    and "get (Test data) \<noteq> []"
    and "get (Output data) \<noteq> []"
  shows "written (process_event s data) =
           written s
           @ map failed_chunk (buffered s (test_key data))
           @ [failed_chunk (get (Output data)),
              if str_in ''FAIL'' (get (Output data))
              then hard_failure_chunk (get (Output data))
              else failed_chunk (get (Output data))]"
  using assms by (simp add: written_process_event)

theorem fail_fragment_emitted_twice_witness:
  "get (Action fail_with_output) = ''fail'' \<and> get (Test fail_with_output) \<noteq> [] \<and>
   get (Output fail_with_output) \<noteq> [] \<and>
   written (process_event init fail_with_output) =
     [failed_chunk ''--- FAIL: t'', hard_failure_chunk ''--- FAIL: t'']"
proof -
  have h1: "get (Action fail_with_output) = ''fail''"
    by (simp add: fail_with_output_def get_def)
  have h2: "get (Test fail_with_output) \<noteq> []"
    by (simp add: fail_with_output_def get_def)
  have h3: "get (Output fail_with_output) \<noteq> []"
    by (simp add: fail_with_output_def get_def)
  have a: "written (process_event init fail_with_output) =
     [failed_chunk ''--- FAIL: t'', hard_failure_chunk ''--- FAIL: t'']"
    using fail_fragment_emitted_twice [OF h1 h2 h3, of init]
    by (simp add: fail_with_output_def test_key_def get_def init_def buffered_def)
  from h1 h2 h3 a show ?thesis by blast
qed

section \<open>Scenario B\<close>

text \<open>
  Claim C3, as the code runs it. The \<open>output\<close> event writes \<open>boom\<close> in the neutral
  marker on standard output, since the key has not failed yet. The \<open>fail\<close> event
  replays the buffer, which writes \<open>boom\<close> once in the failed marker on standard
  error; it has no \<open>Output\<close> of its own, so the classification writes nothing. The
  exit status is 1.
\<close>

theorem scenario_B_streams:
  "fst (main scenario_B) = Returned 1 \<and>
   exit_status (fst (main scenario_B)) = 1 \<and>
   on_stream Stderr (snd (main scenario_B)) = [YELLOW @ ''boom'' @ [CHR 0x0A] @ RESET] \<and>
   on_stream Stdout (snd (main scenario_B)) = [LIGHT_GREY @ ''boom'' @ [CHR 0x0A] @ RESET]"
  by (simp add: main_scenario_B on_stream_def exit_status_def neutral_chunk_def failed_chunk_def)

text \<open>
  Claim C3, as stated, asks for two chunks \<open>boom\<close> in the failed marker on standard
  error; the run has one.
\<close>

theorem scenario_B_counterexample:
  "count_list (on_stream Stderr (snd (main scenario_B))) (YELLOW @ ''boom'' @ [CHR 0x0A] @ RESET) \<noteq> 2"
  by (simp add: main_scenario_B on_stream_def neutral_chunk_def failed_chunk_def)

section \<open>Completion\<close>

text \<open>
  Claim C6. After an event that carries \<open>Elapsed\<close>, its key has no entry in
  \<open>test_buffers\<close> and is not in \<open>failed_tests\<close>. After any further events of other
  keys, the next event of the same key finds no buffered fragment, and its fragment, when
  it is non-empty, does not contain \<open>FAIL\<close> and the action is not \<open>fail\<close>, is
  written in the neutral marker on standard output.
\<close>

theorem completion_clears_key:
  assumes "Elapsed data \<noteq> None"
  shows "test_buffers (process_event s data) (test_key data) = None \<and>
         test_key data \<notin> failed_tests (process_event s data) \<and>
         ((\<forall>e \<in> set mid. test_key e \<noteq> test_key data) \<and>
          test_key later = test_key data \<and>
          get (Output later) \<noteq> [] \<and> \<not> str_in ''FAIL'' (get (Output later)) \<and>
          get (Action later) \<noteq> ''fail'' \<longrightarrow>
            buffered (foldl process_event (process_event s data) mid) (test_key later) = [] \<and>
            written (process_event (foldl process_event (process_event s data) mid) later) =
              written (foldl process_event (process_event s data) mid)
              @ [neutral_chunk (get (Output later))])"
proof -
  have a: "test_buffers (process_event s data) (test_key data) = None"
    using assms by (simp add: test_buffers_own_key)
  have b: "test_key data \<notin> failed_tests (process_event s data)"
    using assms by (simp add: failed_tests_process_event)
  have c: "buffered (foldl process_event (process_event s data) mid) (test_key later) = [] \<and>
           written (process_event (foldl process_event (process_event s data) mid) later) =
             written (foldl process_event (process_event s data) mid)
             @ [neutral_chunk (get (Output later))]"
    if mid: "\<forall>e \<in> set mid. test_key e \<noteq> test_key data"
      and key: "test_key later = test_key data"
      and out: "get (Output later) \<noteq> []" "\<not> str_in ''FAIL'' (get (Output later))"
      and act: "get (Action later) \<noteq> ''fail''"
  proof -
    from foldl_other_keys [OF mid, of "process_event s data"] a b
    have "test_buffers (foldl process_event (process_event s data) mid) (test_key data) = None"
      and "test_key data \<notin> failed_tests (foldl process_event (process_event s data) mid)"
      by simp_all
    with key out act show ?thesis
      by (simp add: buffered_def written_process_event)
  qed
  from a b c show ?thesis by blast
qed

theorem completion_clears_key_witness:
  "Elapsed B_fail \<noteq> None \<and>
   test_buffers (process_event failed_state B_fail) ''p::t'' = None \<and>
   ''p::t'' \<notin> failed_tests (process_event failed_state B_fail) \<and>
   buffered (foldl process_event (process_event failed_state B_fail) [other_output]) ''p::t'' = [] \<and>
   written (process_event (foldl process_event (process_event failed_state B_fail) [other_output])
              B_output) =
     written (foldl process_event (process_event failed_state B_fail) [other_output])
     @ [neutral_chunk (''boom'' @ [CHR 0x0A])]"
proof -
  have h: "Elapsed B_fail \<noteq> None"
    by (simp add: B_fail_def)
  have k: "test_key B_fail = ''p::t''" "test_key B_output = ''p::t''"
    by (simp_all add: B_output_def B_fail_def test_key_def get_def)
  have m: "\<forall>e \<in> set [other_output]. test_key e \<noteq> test_key B_fail"
    by (simp add: B_fail_def other_output_def test_key_def get_def)
  have o: "get (Output B_output) = ''boom'' @ [CHR 0x0A]" "get (Action B_output) \<noteq> ''fail''"
    by (simp_all add: B_output_def get_def)
  have n: "\<not> str_in ''FAIL'' (get (Output B_output))"
    by (simp add: B_output_def get_def)
  note t = completion_clears_key [OF h, of failed_state "[other_output]" B_output]
  from t m k o n h show ?thesis by simp
qed

section \<open>Lines that decode to something other than a dictionary\<close>

text \<open>
  Claim C7. A line that is valid JSON but not an object, such as \<open>[]\<close>, is not
  skipped: \<open>data.get\<close> raises \<open>AttributeError\<close>, the run ends there, and the lines
  after it are never read.
\<close>

theorem non_dict_line_aborts:
  "main [Loaded (PyList []), Loaded (PyDict B_output)] = (Raised AttributeError, [])"
  by (simp add: main_def finish_def init_def)

text \<open>
  Claim C5. On the single line \<open>123\<close> the run ends with the uncaught exception, so
  the exit status is 1 although no event with action \<open>fail\<close> was read. (On input
  whose decoded lines are all dictionaries, \<open>returned_status\<close> gives the status the
  claim states.)
\<close>

theorem abort_exit_status:
  "exit_status (fst (main [Loaded (PyNum 123)])) = 1 \<and>
   \<not> (\<exists>d. Loaded (PyDict d) \<in> set [Loaded (PyNum 123)] \<and> get (Action d) = ''fail'')"
  by (simp add: main_def finish_def exit_status_def)

section \<open>Invariants\<close>

text \<open>
  Claim C8, as stated, fails: an event with action \<open>fail\<close> reads
  \<open>test_buffers[test_key]\<close> for the replay, and the \<open>defaultdict\<close> stores an empty
  list under a key that had no entry. Without \<open>Elapsed\<close> the entry stays.
\<close>

theorem bare_fail_creates_entry:
  "''p::t'' \<in> dom (test_buffers (snd (main_loop init [Loaded (PyDict bare_fail)]))) \<and>
   \<not> (\<exists>d. Loaded (PyDict d) \<in> set [Loaded (PyDict bare_fail)] \<and>
          get (Test d) \<noteq> [] \<and> get (Output d) \<noteq> [])"
  by (simp add: init_def body_defs bare_fail_def test_key_def get_def)

text \<open>
  Claim C8, amended. At the end of any input (so after any prefix of it), a key has an
  entry in \<open>test_buffers\<close> only if some line read was an event of that key with a
  non-empty \<open>Test\<close> and a non-empty \<open>Output\<close>, or an event of that key with action
  \<open>fail\<close>; and it has an entry holding at least one fragment only if some line read
  was an event of that key with a non-empty \<open>Test\<close> and a non-empty \<open>Output\<close>.
\<close>

theorem buffer_entry_origin:
  "(k \<in> dom (test_buffers (snd (main_loop init stdin))) \<longrightarrow>
      (\<exists>d. Loaded (PyDict d) \<in> set stdin \<and> test_key d = k \<and>
         ((get (Test d) \<noteq> [] \<and> get (Output d) \<noteq> []) \<or> get (Action d) = ''fail''))) \<and>
   (buffered (snd (main_loop init stdin)) k \<noteq> [] \<longrightarrow>
      (\<exists>d. Loaded (PyDict d) \<in> set stdin \<and> test_key d = k \<and>
         get (Test d) \<noteq> [] \<and> get (Output d) \<noteq> []))"
proof (intro conjI impI)
  assume "k \<in> dom (test_buffers (snd (main_loop init stdin)))"
  from dom_main_loop [OF this]
  show "\<exists>d. Loaded (PyDict d) \<in> set stdin \<and> test_key d = k \<and>
         ((get (Test d) \<noteq> [] \<and> get (Output d) \<noteq> []) \<or> get (Action d) = ''fail'')"
    by (simp add: init_def)
next
  assume "buffered (snd (main_loop init stdin)) k \<noteq> []"
  from buffered_main_loop [OF this]
  show "\<exists>d. Loaded (PyDict d) \<in> set stdin \<and> test_key d = k \<and>
         get (Test d) \<noteq> [] \<and> get (Output d) \<noteq> []"
    by (simp add: init_def buffered_def)
qed

theorem buffer_entry_origin_witness:
  "buffered (snd (main_loop init [Loaded (PyDict B_output)])) ''p::t'' \<noteq> [] \<and>
   ''p::t'' \<in> dom (test_buffers (snd (main_loop init [Loaded (PyDict B_output)]))) \<and>
   (\<exists>d. Loaded (PyDict d) \<in> set [Loaded (PyDict B_output)] \<and> test_key d = ''p::t'' \<and>
         get (Test d) \<noteq> [] \<and> get (Output d) \<noteq> [])"
proof -
  have k: "test_key B_output = ''p::t''" by (simp add: B_output_def test_key_def get_def)
  have o: "get (Test B_output) \<noteq> []" "get (Output B_output) \<noteq> []"
    by (simp_all add: B_output_def test_key_def get_def)
  have b: "test_buffers (snd (main_loop init [Loaded (PyDict B_output)])) ''p::t''
             = Some [get (Output B_output)]"
    by (simp add: init_def body_defs B_output_def test_key_def get_def)
  then have h1: "buffered (snd (main_loop init [Loaded (PyDict B_output)])) ''p::t'' \<noteq> []"
    by (simp add: buffered_def)
  from b have h2: "''p::t'' \<in> dom (test_buffers (snd (main_loop init [Loaded (PyDict B_output)])))"
    by blast
  from buffer_entry_origin [of "''p::t''" "[Loaded (PyDict B_output)]"] h1 h2
  show ?thesis by blast
qed

text \<open>
  Claim C9. An event puts a key into \<open>failed_tests\<close> only when its action is
  \<open>fail\<close> and the key is its own, and takes a key out only when it carries
  \<open>Elapsed\<close> and the key is its own.
\<close>

theorem failed_set_transitions:
  "(k \<in> failed_tests (process_event s data) \<and> k \<notin> failed_tests s \<longrightarrow>
      get (Action data) = ''fail'' \<and> test_key data = k) \<and>
   (k \<in> failed_tests s \<and> k \<notin> failed_tests (process_event s data) \<longrightarrow>
      Elapsed data \<noteq> None \<and> test_key data = k)"
  by (auto simp add: failed_tests_process_event split: if_splits)

theorem failed_set_transitions_witness:
  "''p::t'' \<in> failed_tests (process_event init bare_fail) \<and> ''p::t'' \<notin> failed_tests init \<and>
   get (Action bare_fail) = ''fail'' \<and> test_key bare_fail = ''p::t'' \<and>
   ''p::t'' \<in> failed_tests failed_state \<and> ''p::t'' \<notin> failed_tests (process_event failed_state B_fail) \<and>
   Elapsed B_fail \<noteq> None \<and> test_key B_fail = ''p::t''"
proof -
  have a: "''p::t'' \<in> failed_tests (process_event init bare_fail)" "''p::t'' \<notin> failed_tests init"
    by (simp_all add: failed_tests_process_event bare_fail_def test_key_def get_def init_def)
  have b: "''p::t'' \<in> failed_tests failed_state"
    "''p::t'' \<notin> failed_tests (process_event failed_state B_fail)"
    by (simp_all add: failed_tests_process_event B_fail_def failed_state_def test_key_def get_def)
  from failed_set_transitions [of "''p::t''" init bare_fail]
    failed_set_transitions [of "''p::t''" failed_state B_fail] a b
  show ?thesis by blast
qed

text \<open>
  Claim C10. For every key other than the key of the event, the entry of
  \<open>test_buffers\<close> and the membership in \<open>failed_tests\<close> are the same before and
  after the event; and \<open>any_test_failed\<close>, once true, stays true.
\<close>

theorem other_keys_untouched:
  assumes "k \<noteq> test_key data"
  shows "test_buffers (process_event s data) k = test_buffers s k \<and>
         (k \<in> failed_tests (process_event s data)) = (k \<in> failed_tests s) \<and>
         (any_test_failed s \<longrightarrow> any_test_failed (process_event s data))"
  using assms
  by (simp add: test_buffers_other_key failed_tests_other_key any_test_failed_process_event)

theorem other_keys_untouched_witness:
  "''p::t'' \<noteq> test_key other_output \<and>
   test_buffers (process_event failed_state other_output) ''p::t'' = Some [''--- FAIL: t''] \<and>
   ''p::t'' \<in> failed_tests (process_event failed_state other_output) \<and>
   any_test_failed (process_event failed_state other_output)"
proof -
  have h: "''p::t'' \<noteq> test_key other_output"
    by (simp add: other_output_def test_key_def get_def)
  from other_keys_untouched [OF h, of failed_state] h
  show ?thesis by (simp add: failed_state_def)
qed

end
